theory Spec2Isabelle
  imports Main
begin

section \<open>Python values used by the two handlers\<close>

text \<open>
  The repository holds two variants of one Lambda handler: \<^verbatim>\<open>lambda_function.py\<close> (backed by
  libmagic through python-magic) and \<^verbatim>\<open>lambda_function_puremagic.py\<close> (backed by puremagic).
  Both receive the decoded \<^verbatim>\<open>file_content\<close> (Python \<^verbatim>\<open>bytes\<close>) and a \<^verbatim>\<open>filename\<close>
  (Python \<^verbatim>\<open>str\<close>).

  A Python \<^verbatim>\<open>bytes\<close> object is a list of bytes; Isabelle's \<open>char\<close> is exactly one byte.
  A Python \<^verbatim>\<open>str\<close> is a sequence of Unicode code points, modelled as natural numbers.
\<close>

type_synonym bytes = "char list"
type_synonym str = "nat list"

definition lit :: "string \<Rightarrow> str" where
  \<comment> \<open>an ASCII string literal of the source, as a Python \<^verbatim>\<open>str\<close>\<close>
  "lit s = map of_char s"

subsection \<open>\<^verbatim>\<open>bytes.decode('utf-8')\<close>\<close>

text \<open>
  Strict UTF-8 decoding, as Python performs it: the well-formed byte sequences of the Unicode
  standard (no overlong forms, no surrogates, nothing above U+10FFFF). \<open>None\<close> stands for
  \<^verbatim>\<open>UnicodeDecodeError\<close>.
\<close>

definition second_lo :: "nat \<Rightarrow> nat" where
  \<comment> \<open>smallest admissible second byte after the lead byte\<close>
  "second_lo b0 = (if b0 = 224 then 160 else if b0 = 240 then 144 else 128)"

definition second_hi :: "nat \<Rightarrow> nat" where
  \<comment> \<open>one past the largest admissible second byte after the lead byte\<close>
  "second_hi b0 = (if b0 = 237 then 160 else if b0 = 244 then 144 else 192)"

definition cont :: "nat \<Rightarrow> bool" where
  \<comment> \<open>a continuation byte \<^verbatim>\<open>10xxxxxx\<close>\<close>
  "cont b = (128 \<le> b \<and> b < 192)"

fun utf8 :: "nat list \<Rightarrow> str option" where
  "utf8 [] = Some []"
| "utf8 (b0 # bs) =
     (if b0 < 128 then map_option ((#) b0) (utf8 bs)
      else if 194 \<le> b0 \<and> b0 < 224 then
        (case bs of
           b1 # rest \<Rightarrow>
             if cont b1
             then map_option ((#) ((b0 - 192) * 64 + (b1 - 128))) (utf8 rest)
             else None
         | _ \<Rightarrow> None)
      else if 224 \<le> b0 \<and> b0 < 240 then
        (case bs of
           b1 # b2 # rest \<Rightarrow>
             if second_lo b0 \<le> b1 \<and> b1 < second_hi b0 \<and> cont b2
             then map_option ((#) ((b0 - 224) * 4096 + (b1 - 128) * 64 + (b2 - 128))) (utf8 rest)
             else None
         | _ \<Rightarrow> None)
      else if 240 \<le> b0 \<and> b0 < 245 then
        (case bs of
           b1 # b2 # b3 # rest \<Rightarrow>
             if second_lo b0 \<le> b1 \<and> b1 < second_hi b0 \<and> cont b2 \<and> cont b3
             then map_option
                    ((#) ((b0 - 240) * 262144 + (b1 - 128) * 4096 + (b2 - 128) * 64 + (b3 - 128)))
                    (utf8 rest)
             else None
         | _ \<Rightarrow> None)
      else None)"

definition utf8_decode :: "bytes \<Rightarrow> str option" where
  "utf8_decode file_content = utf8 (map of_char file_content)"

subsection \<open>\<^verbatim>\<open>str\<close> methods\<close>

definition py_isspace :: "nat \<Rightarrow> bool" where
  \<comment> \<open>the code points \<^verbatim>\<open>str.strip()\<close> removes\<close>
  "py_isspace c =
     ((9 \<le> c \<and> c \<le> 13) \<or> (28 \<le> c \<and> c \<le> 32) \<or> c = 133 \<or> c = 160 \<or> c = 5760 \<or>
      (8192 \<le> c \<and> c \<le> 8202) \<or> c = 8232 \<or> c = 8233 \<or> c = 8239 \<or> c = 8287 \<or> c = 12288)"

definition py_strip :: "str \<Rightarrow> str" where
  "py_strip s = rev (dropWhile py_isspace (rev (dropWhile py_isspace s)))"

fun py_split :: "nat \<Rightarrow> str \<Rightarrow> str list" where
  \<comment> \<open>\<^verbatim>\<open>s.split(sep)\<close> for a one-character separator: never the empty list\<close>
  "py_split sep [] = [[]]"
| "py_split sep (c # cs) =
     (if c = sep then [] # py_split sep cs
      else (case py_split sep cs of
              piece # pieces \<Rightarrow> (c # piece) # pieces
            | [] \<Rightarrow> [[c]]))"

definition py_startswith :: "str \<Rightarrow> str \<Rightarrow> bool" where
  "py_startswith s p = (take (length p) s = p)"

definition py_endswith :: "str \<Rightarrow> str \<Rightarrow> bool" where
  "py_endswith s p = (length p \<le> length s \<and> drop (length s - length p) s = p)"

fun py_in :: "str \<Rightarrow> str \<Rightarrow> bool" where
  \<comment> \<open>\<^verbatim>\<open>sub in s\<close>: \<open>sub\<close> occurs in \<open>s\<close> as a contiguous substring\<close>
  "py_in sub [] = (sub = [])"
| "py_in sub (c # cs) = (py_startswith (c # cs) sub \<or> py_in sub cs)"

text \<open>
  \<^verbatim>\<open>str.lower()\<close>. On ASCII it maps \<^verbatim>\<open>A\<close>..\<^verbatim>\<open>Z\<close> to \<^verbatim>\<open>a\<close>..\<^verbatim>\<open>z\<close> and nothing else. Outside
  ASCII it follows the Unicode character database, where one code point may lower-case to
  several and the result may depend on the position in the string (final sigma). That table is
  not part of the repository: it is the parameter \<open>L\<close>, which gives the lower-casing of the
  non-ASCII character at index \<open>i\<close> of \<open>s\<close>. Every result below holds for every \<open>L\<close>.
\<close>

type_synonym lower_table = "str \<Rightarrow> nat \<Rightarrow> str"

definition ascii_lower :: "nat \<Rightarrow> nat" where
  "ascii_lower c = (if 65 \<le> c \<and> c \<le> 90 then c + 32 else c)"

definition py_lower :: "lower_table \<Rightarrow> str \<Rightarrow> str" where
  "py_lower L s =
     concat (map (\<lambda>i. if s ! i < 128 then [ascii_lower (s ! i)] else L s i) [0..<length s])"

subsection \<open>\<^verbatim>\<open>count >= total * 0.8\<close>: an \<^verbatim>\<open>int\<close> against an \<^verbatim>\<open>int\<close> times a \<^verbatim>\<open>float\<close>\<close>

text \<open>
  Python evaluates \<^verbatim>\<open>total_lines * 0.8\<close> in IEEE 754 binary64: \<^verbatim>\<open>total_lines\<close> is converted to
  the nearest double, the product with the double nearest to 0.8 is rounded to the nearest
  double (ties to even), and the comparison of the \<^verbatim>\<open>int\<close> with that double is exact.
  A positive double is a natural number of at most 53 significant bits times a power of two.
  The literals are \<^verbatim>\<open>0.8 = 0x1.999999999999ap-1\<close> and \<^verbatim>\<open>0.7 = 0x1.6666666666666p-1\<close>, that is,
  the numerators below over \<open>2 ^ 53\<close>. The values that occur lie between 1 and \<open>2 ^ 64\<close> (a
  list has fewer than \<open>2 ^ 63\<close> elements), so neither overflow nor underflow can happen.
\<close>

fun bit_length :: "nat \<Rightarrow> nat" where
  "bit_length n = (if n = 0 then 0 else Suc (bit_length (n div 2)))"

declare bit_length.simps [simp del]

definition round53 :: "nat \<Rightarrow> nat" where
  \<comment> \<open>round to 53 significant bits, to nearest, ties to even\<close>
  "round53 n =
     (let s = bit_length n - 53; q = n div 2 ^ s; r = n mod 2 ^ s
      in if 2 * r < 2 ^ s \<or> (2 * r = 2 ^ s \<and> even q) then q * 2 ^ s else (q + 1) * 2 ^ s)"

definition float_0_8 :: nat where
  "float_0_8 = 7205759403792794"

definition float_0_7 :: nat where
  "float_0_7 = 6305039478318694"

definition ge_int_times_float :: "nat \<Rightarrow> nat \<Rightarrow> nat \<Rightarrow> bool" where
  \<comment> \<open>\<^verbatim>\<open>k >= total_lines * f\<close> for the double \<open>f = m / 2 ^ 53\<close>\<close>
  "ge_int_times_float k total_lines m = (round53 (round53 total_lines * m) \<le> k * 2 ^ 53)"

section \<open>The response\<close>

text \<open>
  Both handlers answer with status 200 and a JSON body with the keys \<^verbatim>\<open>success\<close> (the final
  \<^verbatim>\<open>is_csv\<close>), \<^verbatim>\<open>message\<close>, \<^verbatim>\<open>mimetype\<close> (the final \<^verbatim>\<open>detected_mimetype\<close>) and \<^verbatim>\<open>filename\<close>;
  the puremagic variant adds \<^verbatim>\<open>puremagic_details\<close> with the two raw detections. An exception
  that escapes the inner block is caught by the outer \<^verbatim>\<open>except Exception\<close>, which answers with
  status 500, \<^verbatim>\<open>success = False\<close> and \<^verbatim>\<open>mimetype = None\<close>.
\<close>

record body =
  success :: bool
  message :: str
  mimetype :: str
  body_filename :: str
  puremagic_details :: "(str option \<times> str option) option"

datatype response =
    Response200 body
  | Response500 str

definition valid_message :: "bool \<Rightarrow> str" where
  \<comment> \<open>\<^verbatim>\<open>f'File is {"a valid CSV" if is_csv else "not a valid CSV"}'\<close>\<close>
  "valid_message is_csv =
     lit ''File is '' @ (if is_csv then lit ''a valid CSV'' else lit ''not a valid CSV'')"

definition response_mimetype :: "response \<Rightarrow> str option" where
  \<comment> \<open>the \<^verbatim>\<open>mimetype\<close> key of the answer; \<open>None\<close> is Python's \<^verbatim>\<open>None\<close>\<close>
  "response_mimetype r = (case r of Response200 b \<Rightarrow> Some (mimetype b) | Response500 e \<Rightarrow> None)"

definition response_success :: "response \<Rightarrow> bool" where
  "response_success r = (case r of Response200 b \<Rightarrow> success b | Response500 e \<Rightarrow> False)"

section \<open>Content-based CSV validation\<close>

text \<open>
  The block under \<^verbatim>\<open># Content-based CSV validation (enhanced)\<close> is the same in both files, up
  to the hint in the last conjunct of \<^verbatim>\<open>csv_criteria_met\<close>.
\<close>

definition csv_mimetypes :: "str list" where
  "csv_mimetypes = [lit ''text/csv'', lit ''application/csv'', lit ''text/comma-separated-values'']"

definition csv_keywords :: "str list" where
  "csv_keywords =
     [lit ''name,'', lit ''id,'', lit ''date,'', lit '',value'', lit '',count'', lit '',amount'']"

definition keyword_hint :: "lower_table \<Rightarrow> str \<Rightarrow> bool" where
  \<comment> \<open>\<^verbatim>\<open>any(keyword in content_str.lower()[:200] for keyword in [...])\<close>\<close>
  "keyword_hint L content_str =
     list_ex (\<lambda>keyword. py_in keyword (take 200 (py_lower L content_str))) csv_keywords"

definition hint_puremagic :: "lower_table \<Rightarrow> str \<Rightarrow> str \<Rightarrow> bool" where
  \<comment> \<open>\<^verbatim>\<open>lambda_function_puremagic.py\<close>, lines 160 to 162\<close>
  "hint_puremagic L filename content_str =
     (py_endswith (py_lower L filename) (lit ''.csv'') \<or> keyword_hint L content_str)"

definition hint_magic :: "lower_table \<Rightarrow> str \<Rightarrow> bool \<Rightarrow> str \<Rightarrow> bool" where
  \<comment> \<open>\<^verbatim>\<open>lambda_function.py\<close>, lines 204 to 207\<close>
  "hint_magic L filename csv_detected_by_magic content_str =
     (py_endswith (py_lower L filename) (lit ''.csv'') \<or> csv_detected_by_magic \<or>
      keyword_hint L content_str)"

definition csv_criteria_met :: "str list \<Rightarrow> bool \<Rightarrow> bool" where
  \<comment> \<open>reached only with at least two \<open>non_empty_lines\<close>, so \<^verbatim>\<open>comma_counts[0]\<close> exists\<close>
  "csv_criteria_met non_empty_lines hint =
     (let comma_counts = map (\<lambda>line. count_list line 44) non_empty_lines;
          comma_lines = length (filter (\<lambda>k. k > 0) comma_counts);
          total_lines = length non_empty_lines;
          header_commas = comma_counts ! 0;
          consistent_comma_lines = length (filter (\<lambda>k. k = header_commas) comma_counts)
      in ge_int_times_float comma_lines total_lines float_0_8 \<and>
         header_commas \<ge> 1 \<and>
         ge_int_times_float consistent_comma_lines total_lines float_0_7 \<and>
         hint)"

definition non_empty_lines_of :: "str list \<Rightarrow> str list" where
  \<comment> \<open>\<^verbatim>\<open>[line.strip() for line in lines if line.strip()]\<close>\<close>
  "non_empty_lines_of lines = map py_strip (filter (\<lambda>line. py_strip line \<noteq> []) lines)"

definition content_validation :: "str \<Rightarrow> bool \<Rightarrow> bool" where
  \<comment> \<open>whether the assignment \<^verbatim>\<open>is_csv = True\<close> under \<^verbatim>\<open>if csv_criteria_met\<close> is executed\<close>
  "content_validation content_str hint =
     (let lines = py_split 10 (py_strip content_str)
      in if length lines \<ge> 2
         then (let non_empty_lines = non_empty_lines_of lines
               in if length non_empty_lines \<ge> 2
                  then csv_criteria_met non_empty_lines hint
                  else False)
         else False)"

section \<open>\<^verbatim>\<open>lambda_function_puremagic.py\<close>\<close>

text \<open>
  puremagic is an external library. Its two calls are wrapped in \<^verbatim>\<open>try\<close>/\<^verbatim>\<open>except Exception\<close>,
  so each yields a label or \<^verbatim>\<open>None\<close>: these outcomes are the arguments \<open>detected_type\<close>
  (\<^verbatim>\<open>puremagic.from_file\<close>) and \<open>buffer_type\<close> (\<^verbatim>\<open>puremagic.from_string\<close>).
\<close>

definition truthy :: "str option \<Rightarrow> bool" where
  \<comment> \<open>\<^verbatim>\<open>if detected_type:\<close> is false for \<^verbatim>\<open>None\<close> and for the empty string\<close>
  "truthy detected_type = (case detected_type of None \<Rightarrow> False | Some t \<Rightarrow> t \<noteq> [])"

definition map_type :: "lower_table \<Rightarrow> str \<Rightarrow> str" where
  \<comment> \<open>lines 86 to 100: the chain of \<^verbatim>\<open>if\<close>/\<^verbatim>\<open>elif\<close> on \<^verbatim>\<open>type_lower\<close>, with the default of line 82\<close>
  "map_type L detected_type =
     (let type_lower = py_lower L detected_type
      in if py_in (lit ''pdf'') type_lower then lit ''application/pdf''
         else if py_in (lit ''jpeg'') type_lower \<or> py_in (lit ''jpg'') type_lower
           then lit ''image/jpeg''
         else if py_in (lit ''png'') type_lower then lit ''image/png''
         else if py_in (lit ''text'') type_lower then lit ''text/plain''
         else if py_in (lit ''html'') type_lower then lit ''text/html''
         else if py_in (lit ''xml'') type_lower then lit ''application/xml''
         else if py_in (lit ''json'') type_lower then lit ''application/json''
         else lit ''application/octet-stream'')"

definition puremagic_mimetype :: "lower_table \<Rightarrow> str option \<Rightarrow> bytes \<Rightarrow> str" where
  \<comment> \<open>lines 82 to 112: \<^verbatim>\<open>detected_mimetype\<close> before the CSV check\<close>
  "puremagic_mimetype L detected_type file_content =
     (case detected_type of
        None \<Rightarrow>
          (case utf8_decode file_content of
             Some content_str \<Rightarrow> lit ''text/plain''
           | None \<Rightarrow> lit ''application/octet-stream'')
      | Some t \<Rightarrow>
          if t \<noteq> [] then map_type L t
          else (case utf8_decode file_content of
                  Some content_str \<Rightarrow> lit ''text/plain''
                | None \<Rightarrow> lit ''application/octet-stream''))"

definition mapped_mimetypes :: "str list" where
  \<comment> \<open>the MIME types that \<open>puremagic_mimetype\<close> can yield\<close>
  "mapped_mimetypes =
     [lit ''application/pdf'', lit ''image/jpeg'', lit ''image/png'', lit ''text/plain'',
      lit ''text/html'', lit ''application/xml'', lit ''application/json'',
      lit ''application/octet-stream'']"

definition csv_check_puremagic :: "lower_table \<Rightarrow> bytes \<Rightarrow> str \<Rightarrow> bool \<Rightarrow> str \<Rightarrow> bool \<times> str" where
  \<comment> \<open>lines 132 to 172, the \<^verbatim>\<open>try\<close> block of the text branch:
      \<^verbatim>\<open>(is_csv, detected_mimetype)\<close> after it, from their values before it\<close>
  "csv_check_puremagic L file_content filename is_csv detected_mimetype =
     (case utf8_decode file_content of
        Some content_str \<Rightarrow>
          if content_validation content_str (hint_puremagic L filename content_str)
          then (True, lit ''text/csv'')
          else (is_csv, detected_mimetype)
      | None \<Rightarrow> (False, detected_mimetype))"

definition lambda_handler_puremagic ::
  "lower_table \<Rightarrow> str option \<Rightarrow> str option \<Rightarrow> bytes \<Rightarrow> str \<Rightarrow> response" where
  \<comment> \<open>lines 62 to 183, after the two puremagic calls\<close>
  "lambda_handler_puremagic L detected_type buffer_type file_content filename =
     (let detected_mimetype = puremagic_mimetype L detected_type file_content;
          puremagic_info = (detected_type, buffer_type);
          is_csv = (detected_mimetype \<in> set csv_mimetypes);
          (is_csv', detected_mimetype') =
            (if detected_mimetype = lit ''text/plain'' \<or>
                py_startswith detected_mimetype (lit ''text/'')
             then csv_check_puremagic L file_content filename is_csv detected_mimetype
             else (is_csv, detected_mimetype))
      in Response200 \<lparr>success = is_csv', message = valid_message is_csv',
           mimetype = detected_mimetype', body_filename = filename,
           puremagic_details = Some puremagic_info\<rparr>)"

section \<open>\<^verbatim>\<open>lambda_function.py\<close>\<close>

text \<open>
  libmagic is an external library; the outcomes of its calls are arguments:
  \<^item> \<open>from_file\<close>: \<^verbatim>\<open>magic.Magic(mime=True).from_file(...)\<close>, line 129. It is not guarded, so an
    exception (\<open>Inl\<close>, with its text) reaches the outer handler;
  \<^item> \<open>kind_descr\<close>: the description of line 132, \<^verbatim>\<open>None\<close> when the call raised;
  \<^item> \<open>buffer_detection\<close>: \<^verbatim>\<open>(buffer_mime, buffer_desc)\<close> of lines 163 and 164, or \<open>None\<close> when
    anything in lines 154 to 165 raised, which the \<^verbatim>\<open>except Exception\<close> of line 172 absorbs.
\<close>

definition alternative_magic_detection ::
  "lower_table \<Rightarrow> str \<Rightarrow> (str \<times> str) option \<Rightarrow> bool \<times> str" where
  \<comment> \<open>lines 151 to 173: \<^verbatim>\<open>(csv_detected_by_magic, detected_mimetype)\<close> afterwards\<close>
  "alternative_magic_detection L detected_mimetype buffer_detection =
     (case buffer_detection of
        None \<Rightarrow> (False, detected_mimetype)
      | Some (buffer_mime, buffer_desc) \<Rightarrow>
          if py_in (lit ''csv'') (py_lower L buffer_mime) \<or>
             py_in (lit ''csv'') (py_lower L buffer_desc)
          then (True, lit ''text/csv'')
          else (False, detected_mimetype))"

definition csv_check_magic :: "lower_table \<Rightarrow> bytes \<Rightarrow> str \<Rightarrow> bool \<Rightarrow> bool \<Rightarrow> bool" where
  \<comment> \<open>lines 176 to 216, the second \<^verbatim>\<open>try\<close> block of the text branch:
      \<^verbatim>\<open>is_csv\<close> after it, from its value before it\<close>
  "csv_check_magic L file_content filename csv_detected_by_magic is_csv =
     (case utf8_decode file_content of
        Some content_str \<Rightarrow>
          if content_validation content_str
               (hint_magic L filename csv_detected_by_magic content_str)
          then True
          else is_csv
      | None \<Rightarrow> False)"

definition lambda_handler_magic ::
  "lower_table \<Rightarrow> str + str \<Rightarrow> str option \<Rightarrow> (str \<times> str) option \<Rightarrow> bytes \<Rightarrow> str \<Rightarrow> response"
  where
  \<comment> \<open>lines 126 to 241, after the libmagic calls\<close>
  "lambda_handler_magic L from_file kind_descr buffer_detection file_content filename =
     (case from_file of
        Inl e \<Rightarrow> Response500 (lit ''Error processing file: '' @ e)
      | Inr detected_mimetype \<Rightarrow>
          (let is_csv = (detected_mimetype \<in> set csv_mimetypes);
               (is_csv', detected_mimetype') =
                 (if detected_mimetype = lit ''text/plain'' \<or>
                     py_startswith detected_mimetype (lit ''text/'')
                  then (let (csv_detected_by_magic, detected_mimetype') =
                              alternative_magic_detection L detected_mimetype buffer_detection
                        in (csv_check_magic L file_content filename csv_detected_by_magic is_csv,
                            detected_mimetype'))
                  else (is_csv, detected_mimetype))
           in Response200 \<lparr>success = is_csv', message = valid_message is_csv',
                mimetype = detected_mimetype', body_filename = filename,
                puremagic_details = None\<rparr>))"

section \<open>The CSV rule in the specification's words\<close>

text \<open>
  Section 4.3 of the specification, steps 1 to 5, stated on its own terms: the non-empty lines
  of the trimmed text, the three counts, the exact ratios 80% and 70%, and the two
  corroborating hints. It is compared with \<open>content_validation\<close> below.
\<close>

definition spec_non_empty_lines :: "str \<Rightarrow> str list" where
  \<comment> \<open>split on line breaks, trim each line, drop the empty ones\<close>
  "spec_non_empty_lines text =
     filter (\<lambda>line. line \<noteq> []) (map py_strip (py_split 10 (py_strip text)))"

definition spec_structure :: "str \<Rightarrow> bool" where
  \<comment> \<open>at least 80% of the lines hold a comma, the first line holds one, and at least 70% of
      the lines hold as many commas as the first\<close>
  "spec_structure text =
     (let ls = spec_non_empty_lines text;
          n = length ls;
          header_commas = count_list (hd ls) 44
      in 8 * n \<le> 10 * length (filter (\<lambda>line. 44 \<in> set line) ls) \<and>
         1 \<le> header_commas \<and>
         7 * n \<le> 10 * length (filter (\<lambda>line. count_list line 44 = header_commas) ls))"

definition spec_hints :: "lower_table \<Rightarrow> str \<Rightarrow> str \<Rightarrow> bool" where
  \<comment> \<open>the file name ends in \<^verbatim>\<open>.csv\<close> whatever its case, or a keyword occurs in the first 200
      characters of the lower-cased text\<close>
  "spec_hints L text filename =
     (py_endswith (py_lower L filename) (lit ''.csv'') \<or>
      list_ex (\<lambda>keyword. py_in keyword (take 200 (py_lower L text))) csv_keywords)"

section \<open>Example inputs\<close>

definition csv_example :: bytes where
  \<comment> \<open>the three-line CSV of the specification's section 8\<close>
  "csv_example = ''name,age,city\<newline>John,30,NYC\<newline>Jane,25,LA''"

definition two_rows :: bytes where
  \<comment> \<open>two rows of two fields, with no keyword of \<open>csv_keywords\<close>\<close>
  "two_rows = ''a,b\<newline>c,d''"

section \<open>The binary64 thresholds are the exact ratios\<close>

text \<open>
  Below \<open>2 ^ 48\<close> lines the comparisons \<^verbatim>\<open>k >= total_lines * 0.8\<close> and
  \<^verbatim>\<open>k >= total_lines * 0.7\<close>, as Python computes them, agree with the exact ratios 4/5 and 7/10.
\<close>

lemma bit_length_upper: "n < 2 ^ bit_length n"
proof (induction n rule: bit_length.induct)
  case (1 n)
  show ?case
  proof (cases "n = 0")
    case True
    then show ?thesis by (simp add: bit_length.simps)
  next
    case False
    with 1 have "n div 2 < 2 ^ bit_length (n div 2)" by simp
    then have "n < 2 * 2 ^ bit_length (n div 2)" by linarith
    with False show ?thesis by (simp add: bit_length.simps[of n])
  qed
qed

lemma bit_length_le: "n < 2 ^ k \<Longrightarrow> bit_length n \<le> k"
proof (induction n arbitrary: k rule: bit_length.induct)
  case (1 n)
  show ?case
  proof (cases "n = 0")
    case True
    then show ?thesis by (simp add: bit_length.simps)
  next
    case False
    with 1(2) obtain j where k: "k = Suc j" by (cases k) auto
    with 1(2) have "n div 2 < 2 ^ j" by simp
    with 1(1) False have "bit_length (n div 2) \<le> j" by simp
    with False k show ?thesis by (simp add: bit_length.simps[of n])
  qed
qed

lemma round53_small: "n < 2 ^ 53 \<Longrightarrow> round53 n = n"
proof -
  assume "n < 2 ^ 53"
  then have "bit_length n - 53 = 0" using bit_length_le[of n 53] by simp
  then show ?thesis by (simp add: round53_def)
qed

lemma round53_cases:
  fixes n :: nat
  defines "P \<equiv> 2 ^ (bit_length n - 53)"
  shows "(round53 n = (n div P) * P \<and> 2 * (n mod P) \<le> P) \<or>
         (round53 n = (n div P) * P + P \<and> P \<le> 2 * (n mod P))"
  unfolding round53_def P_def Let_def by auto

lemma round53_near:
  fixes n :: nat
  defines "P \<equiv> 2 ^ (bit_length n - 53)"
  shows "2 * round53 n \<le> 2 * n + P" and "2 * n \<le> 2 * round53 n + P"
proof -
  have n: "n = (n div P) * P + n mod P" by simp
  have lt: "n mod P < P" by (simp add: P_def)
  have c: "(round53 n = (n div P) * P \<and> 2 * (n mod P) \<le> P) \<or>
        (round53 n = (n div P) * P + P \<and> P \<le> 2 * (n mod P))"
    unfolding P_def by (rule round53_cases)
  show "2 * round53 n \<le> 2 * n + P" using c n lt by linarith
  show "2 * n \<le> 2 * round53 n + P" using c n lt by linarith
qed

lemma round53_dvd: "2 ^ (bit_length n - 53) dvd round53 n"
  using round53_cases[of n] by auto

lemma round53_le_multiple:
  assumes "2 ^ (bit_length n - 53) dvd m" and "n \<le> m"
  shows "round53 n \<le> m"
proof -
  define P :: nat where "P = 2 ^ (bit_length n - 53)"
  have P: "0 < P" by (simp add: P_def)
  from assms(1) obtain j where m: "m = j * P" by (auto simp: P_def dvd_def mult.commute)
  have n: "n = (n div P) * P + n mod P" by simp
  from round53_cases[of n] consider
    "round53 n = (n div P) * P" | "round53 n = (n div P) * P + P" "P \<le> 2 * (n mod P)"
    unfolding P_def by blast
  then show ?thesis
  proof cases
    case 1
    have "(n div P) * P \<le> n" by simp
    with 1 assms(2) show ?thesis by linarith
  next
    case 2
    from 2(2) P have "0 < n mod P" by linarith
    with n have "(n div P) * P < n" by linarith
    with assms(2) m have "(n div P) * P < j * P" by linarith
    then have "n div P < j" by simp
    then have "n div P + 1 \<le> j" by simp
    then have "(n div P + 1) * P \<le> j * P" by (rule mult_le_mono1)
    then have "(n div P) * P + P \<le> j * P" by simp
    with 2(1) m show ?thesis by simp
  qed
qed

lemma multiple_le_round53:
  assumes "2 ^ (bit_length n - 53) dvd m" and "m \<le> n"
  shows "m \<le> round53 n"
proof -
  define P :: nat where "P = 2 ^ (bit_length n - 53)"
  have P: "0 < P" by (simp add: P_def)
  from assms(1) obtain j where m: "m = j * P" by (auto simp: P_def dvd_def mult.commute)
  have "j \<le> n div P" using assms(2) m P by (simp add: less_eq_div_iff_mult_less_eq)
  then have "j * P \<le> (n div P) * P" by (rule mult_le_mono1)
  moreover have "(n div P) * P \<le> round53 n"
    using round53_cases[of n] unfolding P_def by auto
  ultimately show ?thesis using m by linarith
qed

lemma multiples_close:
  fixes a b P :: nat
  assumes "P dvd a" and "P dvd b" and "a < b + P"
  shows "a \<le> b"
proof -
  from assms(1,2) obtain i j where a: "a = P * i" and b: "b = P * j" by (auto simp: dvd_def)
  with assms(3) have "P * i < P * (j + 1)" by (simp add: algebra_simps)
  then have "i < j + 1" by (simp only: mult_less_cancel1)
  then have "P * i \<le> P * j" by simp
  with a b show ?thesis by simp
qed

lemma product_scale:
  fixes t m :: nat
  assumes "t < 2 ^ 48" and "m < 2 ^ 53"
  shows "bit_length (t * m) - 53 \<le> 48" and "2 ^ (bit_length (t * m) - 53) dvd k * (2 ^ 53 :: nat)"
    and "t * m < 2 ^ (bit_length (t * m) - 53) * 2 ^ 53"
proof -
  have "t * m < 2 ^ 48 * 2 ^ 53"
    using assms by (intro mult_strict_mono) simp_all
  then have "t * m < 2 ^ 101" by simp
  then have le: "bit_length (t * m) \<le> 101" by (rule bit_length_le)
  then show s: "bit_length (t * m) - 53 \<le> 48" by simp
  have "(2::nat) ^ (bit_length (t * m) - 53) dvd 2 ^ 53"
    using s by (intro le_imp_power_dvd) simp
  then show "2 ^ (bit_length (t * m) - 53) dvd k * (2 ^ 53 :: nat)" by (rule dvd_mult)
  have "bit_length (t * m) \<le> (bit_length (t * m) - 53) + 53" by simp
  then have "(2::nat) ^ bit_length (t * m) \<le> 2 ^ ((bit_length (t * m) - 53) + 53)"
    by (intro power_increasing) simp_all
  with bit_length_upper[of "t * m"]
  show "t * m < 2 ^ (bit_length (t * m) - 53) * 2 ^ 53" by (simp add: power_add)
qed

lemma ge_times_0_8:
  assumes t: "t < 2 ^ 48"
  shows "ge_int_times_float k t float_0_8 \<longleftrightarrow> 4 * t \<le> 5 * k"
proof -
  define N where "N = t * float_0_8"
  define P :: nat where "P = 2 ^ (bit_length N - 53)"
  define M where "M = k * (2 ^ 53 :: nat)"
  have m: "float_0_8 < 2 ^ 53" by (simp add: float_0_8_def)
  have rt: "round53 t = t" using t by (intro round53_small) simp
  have N5: "5 * N = t * 2 ^ 55 + 2 * t" by (simp add: N_def float_0_8_def)
  have M5: "5 * M = 5 * k * 2 ^ 53" by (simp add: M_def)
  have Ple: "P \<le> 2 ^ 48"
    unfolding P_def N_def using product_scale(1)[OF t m] by (intro power_increasing) simp_all
  have PM: "P dvd M" unfolding P_def N_def M_def by (rule product_scale(2)[OF t m])
  have NP: "N < P * 2 ^ 53" unfolding P_def N_def by (rule product_scale(3)[OF t m])
  have PR: "P dvd round53 N" unfolding P_def by (rule round53_dvd)
  have near1: "2 * round53 N \<le> 2 * N + P" unfolding P_def by (rule round53_near(1))
  have near2: "2 * N \<le> 2 * round53 N + P" unfolding P_def by (rule round53_near(2))
  have goal: "ge_int_times_float k t float_0_8 \<longleftrightarrow> round53 N \<le> M"
    by (simp add: ge_int_times_float_def rt N_def M_def)
  show ?thesis
  proof (cases "4 * t \<le> 5 * k")
    case True
    have "round53 N \<le> M"
    proof (cases "4 * t = 5 * k")
      case True
      with N5 M5 have "5 * N = 5 * M + 2 * t" by simp
      moreover from NP N5 have "4 * t < 5 * P" by simp
      ultimately have "round53 N < M + P" using near1 by linarith
      with PR PM show ?thesis by (rule multiples_close)
    next
      case False
      with True have "4 * t + 1 \<le> 5 * k" by simp
      then have "(4 * t + 1) * 2 ^ 53 \<le> 5 * k * (2 ^ 53 :: nat)" by (rule mult_le_mono1)
      with M5 N5 t have "N \<le> M" by simp
      with PM show ?thesis unfolding P_def by (rule round53_le_multiple)
    qed
    with True goal show ?thesis by simp
  next
    case False
    then have "5 * k + 1 \<le> 4 * t" by simp
    then have "(5 * k + 1) * 2 ^ 53 \<le> 4 * t * (2 ^ 53 :: nat)" by (rule mult_le_mono1)
    with M5 N5 have MN: "5 * M + 2 ^ 53 + 2 * t \<le> 5 * N" by simp
    have "\<not> round53 N \<le> M"
    proof
      assume "round53 N \<le> M"
      with near2 MN Ple show False by simp
    qed
    with False goal show ?thesis by simp
  qed
qed

lemma ge_times_0_7:
  assumes t: "t < 2 ^ 48"
  shows "ge_int_times_float k t float_0_7 \<longleftrightarrow> 7 * t \<le> 10 * k"
proof -
  define N where "N = t * float_0_7"
  define P :: nat where "P = 2 ^ (bit_length N - 53)"
  define M where "M = k * (2 ^ 53 :: nat)"
  have m: "float_0_7 < 2 ^ 53" by (simp add: float_0_7_def)
  have rt: "round53 t = t" using t by (intro round53_small) simp
  have N10: "10 * N + 4 * t = 7 * t * 2 ^ 53" by (simp add: N_def float_0_7_def)
  have M10: "10 * M = 10 * k * 2 ^ 53" by (simp add: M_def)
  have Ple: "P \<le> 2 ^ 48"
    unfolding P_def N_def using product_scale(1)[OF t m] by (intro power_increasing) simp_all
  have PM: "P dvd M" unfolding P_def N_def M_def by (rule product_scale(2)[OF t m])
  have near2: "2 * N \<le> 2 * round53 N + P" unfolding P_def by (rule round53_near(2))
  have goal: "ge_int_times_float k t float_0_7 \<longleftrightarrow> round53 N \<le> M"
    by (simp add: ge_int_times_float_def rt N_def M_def)
  show ?thesis
  proof (cases "7 * t \<le> 10 * k")
    case True
    then have "7 * t * 2 ^ 53 \<le> 10 * k * (2 ^ 53 :: nat)" by (rule mult_le_mono1)
    with N10 M10 have "N \<le> M" by simp
    with PM have "round53 N \<le> M" unfolding P_def by (rule round53_le_multiple)
    with True goal show ?thesis by simp
  next
    case False
    then have "10 * k + 1 \<le> 7 * t" by simp
    then have "(10 * k + 1) * 2 ^ 53 \<le> 7 * t * (2 ^ 53 :: nat)" by (rule mult_le_mono1)
    with M10 N10 have MN: "10 * M + 2 ^ 53 \<le> 10 * N + 4 * t" by simp
    have "\<not> round53 N \<le> M"
    proof
      assume "round53 N \<le> M"
      with near2 MN Ple t show False by simp
    qed
    with False goal show ?thesis by simp
  qed
qed

text \<open>
  The bound is needed: with \<open>2 ^ 53 + 1\<close> lines the conversion of the count to a double already
  rounds, and the comparison with 0.8 accepts a count that is below four fifths.
\<close>

lemma bit_length_eq:
  assumes "2 ^ k \<le> n" and "n < 2 ^ Suc k"
  shows "bit_length n = Suc k"
proof -
  have "bit_length n \<le> Suc k" using assms(2) by (rule bit_length_le)
  moreover have "\<not> bit_length n \<le> k"
  proof
    assume "bit_length n \<le> k"
    then have "(2::nat) ^ bit_length n \<le> 2 ^ k" by (intro power_increasing) simp_all
    with bit_length_upper[of n] assms(1) show False by simp
  qed
  ultimately show ?thesis by simp
qed

lemma binary64_differs_beyond_range:
  "ge_int_times_float 7205759403792794 (2 ^ 53 + 1) float_0_8 \<and>
   \<not> 4 * (2 ^ 53 + 1) \<le> 5 * (7205759403792794 :: nat)"
proof -
  have b1: "bit_length 9007199254740993 = Suc 53"
    by (rule bit_length_eq) simp_all
  have r1: "round53 9007199254740993 = 9007199254740992"
    by (simp add: round53_def b1)
  have b2: "bit_length 64903710731685348959510906011648 = Suc 105"
    by (rule bit_length_eq) simp_all
  have r2: "round53 64903710731685348959510906011648 = 64903710731685348959510906011648"
    by (simp add: round53_def b2)
  have "ge_int_times_float 7205759403792794 9007199254740993 float_0_8"
    by (simp add: ge_int_times_float_def float_0_8_def r1 r2)
  then show ?thesis by simp
qed

section \<open>The content validation, line by line\<close>

lemma py_split_not_Nil: "py_split sep s \<noteq> []"
  by (induction s) (auto split: list.splits)

lemma length_non_empty_lines_of: "length (non_empty_lines_of lines) \<le> length lines"
  by (simp add: non_empty_lines_of_def)

lemma spec_non_empty_lines_eq:
  "spec_non_empty_lines text = non_empty_lines_of (py_split 10 (py_strip text))"
  by (simp add: spec_non_empty_lines_def non_empty_lines_of_def filter_map comp_def)

lemma content_validation_iff:
  "content_validation content_str hint \<longleftrightarrow>
     2 \<le> length (spec_non_empty_lines content_str) \<and>
     csv_criteria_met (spec_non_empty_lines content_str) hint"
proof -
  have "length (spec_non_empty_lines content_str) \<le> length (py_split 10 (py_strip content_str))"
    unfolding spec_non_empty_lines_eq by (rule length_non_empty_lines_of)
  then show ?thesis
    by (auto simp: content_validation_def Let_def spec_non_empty_lines_eq)
qed

lemma comma_lines_eq:
  "length (filter (\<lambda>k. k > 0) (map (\<lambda>line. count_list line c) ls)) =
   length (filter (\<lambda>line. c \<in> set line) ls)"
proof -
  have "0 < count_list line c \<longleftrightarrow> c \<in> set line" for line :: "'a list"
    using count_list_0_iff[of line c] by auto
  then have "filter (\<lambda>line. 0 < count_list line c) ls = filter (\<lambda>line. c \<in> set line) ls"
    by simp
  then show ?thesis by (simp add: filter_map comp_def)
qed

lemma consistent_lines_eq:
  "length (filter (\<lambda>k. k = h) (map (\<lambda>line. count_list line c) ls)) =
   length (filter (\<lambda>line. count_list line c = h) ls)"
  by (simp add: filter_map comp_def)

lemma csv_criteria_met_exact:
  assumes "ls \<noteq> []" and "length ls < 2 ^ 48"
  shows "csv_criteria_met ls hint \<longleftrightarrow>
     8 * length ls \<le> 10 * length (filter (\<lambda>line. 44 \<in> set line) ls) \<and>
     1 \<le> count_list (hd ls) 44 \<and>
     7 * length ls \<le> 10 * length (filter (\<lambda>line. count_list line 44 = count_list (hd ls) 44) ls) \<and>
     hint"
proof -
  have h: "map (\<lambda>line. count_list line 44) ls ! 0 = count_list (hd ls) 44"
    using assms(1) by (cases ls) simp_all
  show ?thesis
    unfolding csv_criteria_met_def Let_def h comma_lines_eq consistent_lines_eq
      ge_times_0_8[OF assms(2)] ge_times_0_7[OF assms(2)]
    by auto
qed

section \<open>Strings and the MIME mapper\<close>

lemma concat_singletons: "concat (map (\<lambda>i. [g i]) xs) = map g xs"
  by (induction xs) simp_all

lemma py_lower_ascii:
  assumes "list_all (\<lambda>c. c < 128) s"
  shows "py_lower L s = map ascii_lower s"
proof -
  have eq: "map (\<lambda>i. if s ! i < 128 then [ascii_lower (s ! i)] else L s i) [0..<length s]
      = map (\<lambda>i. [ascii_lower (s ! i)]) [0..<length s]"
    using assms by (intro map_cong) (auto simp: list_all_length)
  have "py_lower L s = map (\<lambda>i. ascii_lower (s ! i)) [0..<length s]"
    by (simp only: py_lower_def eq concat_singletons)
  also have "\<dots> = map ascii_lower (map ((!) s) [0..<length s])"
    by simp
  also have "\<dots> = map ascii_lower s"
    by (simp only: map_nth)
  finally show ?thesis .
qed

lemma map_type_range: "map_type L t \<in> set mapped_mimetypes"
  by (simp add: map_type_def mapped_mimetypes_def Let_def)

lemma puremagic_mimetype_range: "puremagic_mimetype L detected_type file_content \<in> set mapped_mimetypes"
proof -
  have "lit ''text/plain'' \<in> set mapped_mimetypes" "lit ''application/octet-stream'' \<in> set mapped_mimetypes"
    by (simp_all add: mapped_mimetypes_def)
  then show ?thesis
    using map_type_range
    by (auto simp: puremagic_mimetype_def split: option.splits)
qed

lemma mapped_not_csv: "m \<in> set mapped_mimetypes \<Longrightarrow> m \<notin> set csv_mimetypes"
  by (auto simp: mapped_mimetypes_def csv_mimetypes_def lit_def)

lemma mapped_not_empty: "m \<in> set mapped_mimetypes \<Longrightarrow> m \<noteq> []"
  by (auto simp: mapped_mimetypes_def lit_def)

lemma puremagic_not_csv: "puremagic_mimetype L detected_type file_content \<notin> set csv_mimetypes"
  by (rule mapped_not_csv) (rule puremagic_mimetype_range)

lemma text_plain_is_text: "py_startswith (lit ''text/plain'') (lit ''text/'')"
  by (simp add: py_startswith_def lit_def)

lemma text_branch_simp:
  "(m = lit ''text/plain'' \<or> py_startswith m (lit ''text/'')) \<longleftrightarrow> py_startswith m (lit ''text/'')"
  using text_plain_is_text by auto

lemma content_validation_empty: "\<not> content_validation [] hint"
  by (simp add: content_validation_def py_strip_def)

lemma alternative_magic_detection_cases:
  "alternative_magic_detection L m buffer_detection = (False, m) \<or>
   alternative_magic_detection L m buffer_detection = (True, lit ''text/csv'')"
  by (auto simp: alternative_magic_detection_def split: option.splits)

lemma lower_text: "py_lower L (lit ''text'') = lit ''text''"
  by (subst py_lower_ascii) (simp_all add: lit_def ascii_lower_def)

lemma map_type_text: "map_type L (lit ''text'') = lit ''text/plain''"
  unfolding map_type_def lower_text Let_def by (simp add: lit_def py_startswith_def)

lemma buffer_reports_csv:
  "alternative_magic_detection L m (Some (lit ''text/csv'', lit ''CSV text'')) =
     (True, lit ''text/csv'')"
proof -
  have "py_lower L (lit ''text/csv'') = lit ''text/csv''"
    by (subst py_lower_ascii) (simp_all add: lit_def ascii_lower_def)
  moreover have "py_in (lit ''csv'') (lit ''text/csv'')"
    by (simp add: lit_def py_startswith_def)
  ultimately show ?thesis by (simp add: alternative_magic_detection_def)
qed

lemma buffer_reports_text:
  "alternative_magic_detection L m (Some (lit ''text/plain'', lit ''ASCII text'')) = (False, m)"
proof -
  have "py_lower L (lit ''text/plain'') = lit ''text/plain''"
    by (subst py_lower_ascii) (simp_all add: lit_def ascii_lower_def)
  moreover have "py_lower L (lit ''ASCII text'') = lit ''ascii text''"
    by (subst py_lower_ascii) (simp_all add: lit_def ascii_lower_def)
  moreover have "\<not> py_in (lit ''csv'') (lit ''text/plain'')"
    by (simp add: lit_def py_startswith_def)
  moreover have "\<not> py_in (lit ''csv'') (lit ''ascii text'')"
    by (simp add: lit_def py_startswith_def)
  ultimately show ?thesis by (simp add: alternative_magic_detection_def)
qed

section \<open>Properties of the two handlers\<close>

lemma csv_check_puremagic_Some:
  "utf8_decode file_content = Some content_str \<Longrightarrow>
   csv_check_puremagic L file_content filename is_csv detected_mimetype =
     (if content_validation content_str (hint_puremagic L filename content_str)
      then (True, lit ''text/csv'') else (is_csv, detected_mimetype))"
  by (simp add: csv_check_puremagic_def)

lemma csv_check_magic_Some:
  "utf8_decode file_content = Some content_str \<Longrightarrow>
   csv_check_magic L file_content filename csv_detected_by_magic is_csv =
     (if content_validation content_str (hint_magic L filename csv_detected_by_magic content_str)
      then True else is_csv)"
  by (simp add: csv_check_magic_def)

lemma puremagic_success:
  "response_success (lambda_handler_puremagic L detected_type buffer_type file_content filename) =
     (py_startswith (puremagic_mimetype L detected_type file_content) (lit ''text/'') \<and>
      fst (csv_check_puremagic L file_content filename False
             (puremagic_mimetype L detected_type file_content)))"
  using puremagic_not_csv[of L detected_type file_content]
  by (auto simp: lambda_handler_puremagic_def response_success_def Let_def text_branch_simp
      split: prod.splits)

lemma magic_success_text:
  "py_startswith m (lit ''text/'') \<Longrightarrow>
   response_success (lambda_handler_magic L (Inr m) kind_descr buffer_detection file_content filename) =
     csv_check_magic L file_content filename
       (fst (alternative_magic_detection L m buffer_detection)) (m \<in> set csv_mimetypes)"
  by (auto simp: lambda_handler_magic_def response_success_def Let_def split: prod.splits)

lemma magic_success_other:
  "\<not> py_startswith m (lit ''text/'') \<Longrightarrow>
   response_success (lambda_handler_magic L (Inr m) kind_descr buffer_detection file_content filename) =
     (m \<in> set csv_mimetypes)"
  using text_plain_is_text
  by (auto simp: lambda_handler_magic_def response_success_def Let_def split: prod.splits)

text \<open>
  C9: a decodable text with fewer than two non-empty lines (after trimming and dropping the
  empty lines) is never declared CSV, whatever the file name and whatever the other hint: the
  content check leaves \<^verbatim>\<open>is_csv\<close> and the MIME type as they were, and the puremagic handler
  answers \<^verbatim>\<open>success = False\<close>.
\<close>

theorem C9_fewer_than_two_lines:
  assumes "utf8_decode file_content = Some content_str"
    and "length (spec_non_empty_lines content_str) < 2"
  shows "\<not> content_validation content_str hint \<and>
    csv_check_puremagic L file_content filename is_csv detected_mimetype =
      (is_csv, detected_mimetype) \<and>
    csv_check_magic L file_content filename csv_detected_by_magic is_csv = is_csv \<and>
    response_success
      (lambda_handler_puremagic L detected_type buffer_type file_content filename) = False"
proof -
  have no: "\<not> content_validation content_str h" for h
    using assms(2) by (simp add: content_validation_iff)
  show ?thesis
    using no by (simp add: csv_check_puremagic_Some[OF assms(1)] csv_check_magic_Some[OF assms(1)]
        puremagic_success)
qed

theorem C9_header_only_witness:
  "utf8_decode ''name,age,city'' = Some (lit ''name,age,city'') \<and>
   length (spec_non_empty_lines (lit ''name,age,city'')) < 2 \<and>
   (\<forall>L filename detected_type buffer_type.
      response_success
        (lambda_handler_puremagic L detected_type buffer_type ''name,age,city'' filename) = False)"
proof -
  have d: "utf8_decode ''name,age,city'' = Some (lit ''name,age,city'')"
    by (simp add: utf8_decode_def lit_def)
  have n: "length (spec_non_empty_lines (lit ''name,age,city'')) < 2"
    by (simp add: spec_non_empty_lines_def py_strip_def py_isspace_def lit_def)
  show ?thesis using d n C9_fewer_than_two_lines[OF d n] by simp
qed

lemma utf8_decode_a: "utf8_decode ''a'' = Some (lit ''a'')"
  by (simp add: utf8_decode_def lit_def)

lemma utf8_decode_FF: "utf8_decode [CHR 0xFF] = None"
  by (simp add: utf8_decode_def)

lemma text_csv_is_text: "py_startswith (lit ''text/csv'') (lit ''text/'')"
  by (simp add: py_startswith_def lit_def)

lemma text_csv_in_csv_mimetypes: "lit ''text/csv'' \<in> set csv_mimetypes"
  by (simp add: csv_mimetypes_def)

text \<open>
  C10: on bytes that decode as UTF-8, the content check is monotone on \<^verbatim>\<open>is_csv\<close>: a true
  \<^verbatim>\<open>is_csv\<close> stays true through the check of either handler, and a libmagic answer whose
  signature MIME type is a CSV type is a success. Only the \<^verbatim>\<open>UnicodeDecodeError\<close> branch sets
  it to false.
\<close>

theorem C10_content_check_monotone:
  assumes "utf8_decode file_content = Some content_str"
    and "is_csv"
    and "m \<in> set csv_mimetypes"
  shows "fst (csv_check_puremagic L file_content filename is_csv detected_mimetype) \<and>
    csv_check_magic L file_content filename csv_detected_by_magic is_csv \<and>
    response_success
      (lambda_handler_magic L (Inr m) kind_descr buffer_detection file_content filename)"
proof -
  have 1: "fst (csv_check_puremagic L file_content filename is_csv detected_mimetype)"
    using assms(2) by (simp add: csv_check_puremagic_Some[OF assms(1)])
  have 2: "csv_check_magic L file_content filename b True" for b
    by (simp add: csv_check_magic_Some[OF assms(1)])
  have 3: "response_success
      (lambda_handler_magic L (Inr m) kind_descr buffer_detection file_content filename)"
  proof (cases "py_startswith m (lit ''text/'')")
    case True
    then show ?thesis using 2 assms(3) by (simp add: magic_success_text)
  next
    case False
    then show ?thesis using assms(3) by (simp add: magic_success_other)
  qed
  from 1 2 3 assms(2) show ?thesis by simp
qed

theorem C10_monotone_witness:
  "utf8_decode ''a'' = Some (lit ''a'') \<and> lit ''text/csv'' \<in> set csv_mimetypes \<and>
   (\<forall>L filename kind_descr buffer_detection.
      csv_check_magic L ''a'' filename False True \<and>
      response_success
        (lambda_handler_magic L (Inr (lit ''text/csv'')) kind_descr buffer_detection ''a''
           filename))"
  using C10_content_check_monotone[OF utf8_decode_a _ text_csv_in_csv_mimetypes, of True]
    utf8_decode_a text_csv_in_csv_mimetypes
  by simp

lemma false_only_by_decode_failure:
  "is_csv \<Longrightarrow> \<not> csv_check_magic L file_content filename csv_detected_by_magic is_csv \<Longrightarrow>
   utf8_decode file_content = None"
  "is_csv \<Longrightarrow> \<not> fst (csv_check_puremagic L file_content filename is_csv detected_mimetype) \<Longrightarrow>
   utf8_decode file_content = None"
  by (auto simp: csv_check_magic_def csv_check_puremagic_def split: option.splits if_splits)

text \<open>
  C4, as the code has it: when the bytes do not decode as UTF-8 in the text branch, the failure
  is absorbed: the answer is a 200 response (nothing reaches the outer handler) with
  \<^verbatim>\<open>success = False\<close>, and the handler of \<^verbatim>\<open>UnicodeDecodeError\<close> leaves the MIME type alone.
  In the puremagic variant the answer carries the mapped type, as derived. In the libmagic
  variant the secondary buffer detection runs before the decoding: the answer carries
  libmagic's type for the file unless that detection reported csv, and \<^verbatim>\<open>text/csv\<close> when it did.
\<close>

theorem C4_decode_failure_absorbed:
  assumes "utf8_decode file_content = None"
    and "py_startswith (puremagic_mimetype L detected_type file_content) (lit ''text/'')"
    and "py_startswith m (lit ''text/'')"
  shows "csv_check_puremagic L file_content filename is_csv detected_mimetype =
      (False, detected_mimetype) \<and>
    csv_check_magic L file_content filename csv_detected_by_magic is_csv = False \<and>
    lambda_handler_puremagic L detected_type buffer_type file_content filename =
      Response200 \<lparr>success = False, message = valid_message False,
        mimetype = puremagic_mimetype L detected_type file_content,
        body_filename = filename, puremagic_details = Some (detected_type, buffer_type)\<rparr> \<and>
    lambda_handler_magic L (Inr m) kind_descr buffer_detection file_content filename =
      Response200 \<lparr>success = False, message = valid_message False,
        mimetype = (if fst (alternative_magic_detection L m buffer_detection)
                    then lit ''text/csv'' else m),
        body_filename = filename, puremagic_details = None\<rparr>"
proof -
  have 1: "csv_check_puremagic L file_content filename b mt = (False, mt)" for b mt
    using assms(1) by (simp add: csv_check_puremagic_def)
  have 2: "csv_check_magic L file_content filename c b = False" for b c
    using assms(1) by (simp add: csv_check_magic_def)
  have 3: "lambda_handler_puremagic L detected_type buffer_type file_content filename =
      Response200 \<lparr>success = False, message = valid_message False,
        mimetype = puremagic_mimetype L detected_type file_content,
        body_filename = filename, puremagic_details = Some (detected_type, buffer_type)\<rparr>"
    using assms(2) by (simp add: lambda_handler_puremagic_def Let_def 1)
  have s: "snd (alternative_magic_detection L m buffer_detection) =
      (if fst (alternative_magic_detection L m buffer_detection) then lit ''text/csv'' else m)"
    using alternative_magic_detection_cases[of L m buffer_detection] by auto
  have "lambda_handler_magic L (Inr m) kind_descr buffer_detection file_content filename =
      Response200 \<lparr>success = False, message = valid_message False,
        mimetype = snd (alternative_magic_detection L m buffer_detection),
        body_filename = filename, puremagic_details = None\<rparr>"
    using assms(3) by (simp add: lambda_handler_magic_def Let_def 2 split: prod.splits)
  then have 4: "lambda_handler_magic L (Inr m) kind_descr buffer_detection file_content filename =
      Response200 \<lparr>success = False, message = valid_message False,
        mimetype = (if fst (alternative_magic_detection L m buffer_detection)
                    then lit ''text/csv'' else m),
        body_filename = filename, puremagic_details = None\<rparr>"
    by (simp only: s)
  from 1 2 3 4 show ?thesis by simp
qed

theorem C4_invalid_byte_witness:
  "utf8_decode [CHR 0xFF] = None \<and>
   (\<forall>L filename buffer_type kind_descr.
      lambda_handler_puremagic L (Some (lit ''text'')) buffer_type [CHR 0xFF] filename =
        Response200 \<lparr>success = False, message = valid_message False,
          mimetype = lit ''text/plain'', body_filename = filename,
          puremagic_details = Some (Some (lit ''text''), buffer_type)\<rparr> \<and>
      lambda_handler_magic L (Inr (lit ''text/plain'')) kind_descr
          (Some (lit ''text/plain'', lit ''ASCII text'')) [CHR 0xFF] filename =
        Response200 \<lparr>success = False, message = valid_message False,
          mimetype = lit ''text/plain'', body_filename = filename,
          puremagic_details = None\<rparr>)"
proof -
  have p: "puremagic_mimetype L (Some (lit ''text'')) [CHR 0xFF] = lit ''text/plain''" for L
    by (simp add: puremagic_mimetype_def map_type_text) (simp add: lit_def)
  show ?thesis
    using C4_decode_failure_absorbed[OF utf8_decode_FF, of _ "Some (lit ''text'')" "lit ''text/plain''"]
      utf8_decode_FF
    by (simp add: p buffer_reports_text text_plain_is_text)
qed

theorem C4_buffer_csv_counterexample:
  "utf8_decode (two_rows @ [CHR 0xFF]) = None \<and>
   py_startswith (lit ''text/plain'') (lit ''text/'') \<and>
   lit ''text/csv'' \<noteq> lit ''text/plain'' \<and>
   (\<forall>L kind_descr filename.
      lambda_handler_magic L (Inr (lit ''text/plain'')) kind_descr
          (Some (lit ''text/csv'', lit ''CSV text'')) (two_rows @ [CHR 0xFF]) filename =
        Response200 \<lparr>success = False, message = valid_message False,
          mimetype = lit ''text/csv'', body_filename = filename,
          puremagic_details = None\<rparr>)"
proof -
  have d: "utf8_decode (two_rows @ [CHR 0xFF]) = None"
    by (simp add: utf8_decode_def two_rows_def)
  have n: "lit ''text/csv'' \<noteq> lit ''text/plain''"
    by (simp add: lit_def)
  have "lambda_handler_magic L (Inr (lit ''text/plain'')) kind_descr
          (Some (lit ''text/csv'', lit ''CSV text'')) (two_rows @ [CHR 0xFF]) filename =
        Response200 \<lparr>success = False, message = valid_message False,
          mimetype = lit ''text/csv'', body_filename = filename,
          puremagic_details = None\<rparr>" for L kind_descr filename
    by (simp add: lambda_handler_magic_def Let_def text_plain_is_text buffer_reports_csv
        csv_check_magic_def d)
  with d n text_plain_is_text show ?thesis by simp
qed

lemma application_csv_not_text: "\<not> py_startswith (lit ''application/csv'') (lit ''text/'')"
  by (simp add: py_startswith_def lit_def)

lemma text_csv_values_is_text: "py_startswith (lit ''text/comma-separated-values'') (lit ''text/'')"
  by (simp add: py_startswith_def lit_def)

lemma csv_check_magic_True:
  "csv_check_magic L file_content filename csv_detected_by_magic True =
     (utf8_decode file_content \<noteq> None)"
  by (simp add: csv_check_magic_def split: option.splits)

text \<open>
  C3, as the code has it: when libmagic itself reports one of the three CSV MIME types, the
  answer is a success for \<^verbatim>\<open>application/csv\<close> whatever the content, and for the two types
  under \<^verbatim>\<open>text/\<close> exactly when the bytes decode as UTF-8. The text branch is entered for
  these two, so the content check runs; it cannot withdraw the verdict on decodable bytes, and
  the line and comma structure does not matter. The puremagic mapper never yields a CSV type.
\<close>

theorem C3_signature_csv_types:
  assumes "m \<in> set csv_mimetypes"
  shows "response_success
      (lambda_handler_magic L (Inr m) kind_descr buffer_detection file_content filename) =
        (m = lit ''application/csv'' \<or> utf8_decode file_content \<noteq> None) \<and>
    puremagic_mimetype L detected_type file_content \<notin> set csv_mimetypes"
proof -
  from assms consider "m = lit ''text/csv''" | "m = lit ''application/csv''"
    | "m = lit ''text/comma-separated-values''"
    by (auto simp: csv_mimetypes_def)
  then have "response_success
      (lambda_handler_magic L (Inr m) kind_descr buffer_detection file_content filename) =
        (m = lit ''application/csv'' \<or> utf8_decode file_content \<noteq> None)"
  proof cases
    case 1
    then show ?thesis
      using assms by (simp add: magic_success_text text_csv_is_text csv_check_magic_True)
        (simp add: lit_def)
  next
    case 2
    then show ?thesis
      using assms by (simp add: magic_success_other application_csv_not_text)
  next
    case 3
    then show ?thesis
      using assms by (simp add: magic_success_text text_csv_values_is_text csv_check_magic_True)
        (simp add: lit_def)
  qed
  then show ?thesis using puremagic_not_csv by simp
qed

theorem C3_application_csv_witness:
  "lit ''application/csv'' \<in> set csv_mimetypes \<and>
   (\<forall>L kind_descr buffer_detection filename.
      response_success
        (lambda_handler_magic L (Inr (lit ''application/csv'')) kind_descr buffer_detection
           [CHR 0xFF] filename))"
proof -
  have m: "lit ''application/csv'' \<in> set csv_mimetypes" by (simp add: csv_mimetypes_def)
  show ?thesis using m C3_signature_csv_types[OF m] by simp
qed

theorem C3_text_csv_counterexample:
  "lit ''text/csv'' \<in> set csv_mimetypes \<and>
   (\<forall>L kind_descr buffer_detection filename.
      response_success
        (lambda_handler_magic L (Inr (lit ''text/csv'')) kind_descr buffer_detection
           ''a'' filename) = True \<and>
      response_success
        (lambda_handler_magic L (Inr (lit ''text/csv'')) kind_descr buffer_detection
           [CHR 0xFF] filename) = False)"
  by (simp add: magic_success_text text_csv_is_text text_csv_in_csv_mimetypes csv_check_magic_True
      utf8_decode_a utf8_decode_FF)

lemma utf8_decode_Nil: "utf8_decode [] = Some []"
  by (simp add: utf8_decode_def)

lemma inode_x_empty: "lit ''inode/x-empty'' \<notin> set csv_mimetypes"
  "\<not> py_startswith (lit ''inode/x-empty'') (lit ''text/'')"
  by (simp_all add: csv_mimetypes_def py_startswith_def lit_def)

lemma map_type_octet_stream_iff:
  "map_type L t = lit ''application/octet-stream'' \<longleftrightarrow>
   \<not> list_ex (\<lambda>keyword. py_in keyword (py_lower L t))
        [lit ''pdf'', lit ''jpeg'', lit ''jpg'', lit ''png'', lit ''text'', lit ''html'',
         lit ''xml'', lit ''json'']"
proof -
  have d: "lit ''application/pdf'' \<noteq> lit ''application/octet-stream''"
    "lit ''image/jpeg'' \<noteq> lit ''application/octet-stream''"
    "lit ''image/png'' \<noteq> lit ''application/octet-stream''"
    "lit ''text/plain'' \<noteq> lit ''application/octet-stream''"
    "lit ''text/html'' \<noteq> lit ''application/octet-stream''"
    "lit ''application/xml'' \<noteq> lit ''application/octet-stream''"
    "lit ''application/json'' \<noteq> lit ''application/octet-stream''"
    by (simp_all add: lit_def)
  show ?thesis by (simp add: map_type_def Let_def d)
qed

text \<open>
  C5, as the code has it: for the empty buffer and any file name, both handlers answer with a
  200 response and \<^verbatim>\<open>success = False\<close>; for the libmagic variant this needs libmagic not to
  report a CSV type for the empty file (it reports \<^verbatim>\<open>inode/x-empty\<close>). The MIME type is not
  \<^verbatim>\<open>application/octet-stream\<close> in general. In the puremagic variant it is \<^verbatim>\<open>text/plain\<close> when
  no label was detected, since the empty buffer decodes as UTF-8; with a label it is the type
  the keyword chain gives, which is \<^verbatim>\<open>application/octet-stream\<close> exactly when the lower-cased
  label holds none of the keywords. In the libmagic variant it is the type libmagic reports,
  or \<^verbatim>\<open>text/csv\<close> when that type is under \<^verbatim>\<open>text/\<close> and the secondary buffer detection
  reports csv.
\<close>

theorem C5_empty_buffer:
  assumes "m \<notin> set csv_mimetypes"
  shows "lambda_handler_puremagic L detected_type buffer_type [] filename =
     Response200 \<lparr>success = False, message = valid_message False,
       mimetype = (case detected_type of
                     None \<Rightarrow> lit ''text/plain''
                   | Some t \<Rightarrow> if t = [] then lit ''text/plain'' else map_type L t),
       body_filename = filename, puremagic_details = Some (detected_type, buffer_type)\<rparr> \<and>
   (map_type L t = lit ''application/octet-stream'' \<longleftrightarrow>
    \<not> list_ex (\<lambda>keyword. py_in keyword (py_lower L t))
         [lit ''pdf'', lit ''jpeg'', lit ''jpg'', lit ''png'', lit ''text'', lit ''html'',
          lit ''xml'', lit ''json'']) \<and>
   lambda_handler_magic L (Inr m) kind_descr buffer_detection [] filename =
     Response200 \<lparr>success = False, message = valid_message False,
       mimetype = (if py_startswith m (lit ''text/'') \<and>
                      fst (alternative_magic_detection L m buffer_detection)
                   then lit ''text/csv'' else m),
       body_filename = filename, puremagic_details = None\<rparr>"
proof -
  have p: "puremagic_mimetype L detected_type [] =
      (case detected_type of
         None \<Rightarrow> lit ''text/plain''
       | Some t \<Rightarrow> if t = [] then lit ''text/plain'' else map_type L t)"
    by (simp add: puremagic_mimetype_def utf8_decode_Nil split: option.splits)
  have c: "csv_check_puremagic L [] filename b mt = (b, mt)" for b mt
    by (simp add: csv_check_puremagic_def utf8_decode_Nil content_validation_empty)
  have d: "csv_check_magic L [] filename x b = b" for b x
    by (simp add: csv_check_magic_def utf8_decode_Nil content_validation_empty)
  have n: "puremagic_mimetype L detected_type [] \<notin> set csv_mimetypes"
    by (rule puremagic_not_csv)
  have "lambda_handler_puremagic L detected_type buffer_type [] filename =
     Response200 \<lparr>success = False, message = valid_message False,
       mimetype = puremagic_mimetype L detected_type [],
       body_filename = filename, puremagic_details = Some (detected_type, buffer_type)\<rparr>"
    using n by (simp add: lambda_handler_puremagic_def Let_def c)
  then have 1: "lambda_handler_puremagic L detected_type buffer_type [] filename =
     Response200 \<lparr>success = False, message = valid_message False,
       mimetype = (case detected_type of
                     None \<Rightarrow> lit ''text/plain''
                   | Some t \<Rightarrow> if t = [] then lit ''text/plain'' else map_type L t),
       body_filename = filename, puremagic_details = Some (detected_type, buffer_type)\<rparr>"
    by (simp only: p)
  have 2: "lambda_handler_magic L (Inr m) kind_descr buffer_detection [] filename =
     Response200 \<lparr>success = False, message = valid_message False,
       mimetype = (if py_startswith m (lit ''text/'') \<and>
                      fst (alternative_magic_detection L m buffer_detection)
                   then lit ''text/csv'' else m),
       body_filename = filename, puremagic_details = None\<rparr>"
    using assms text_plain_is_text alternative_magic_detection_cases[of L m buffer_detection]
    by (auto simp: lambda_handler_magic_def Let_def d split: prod.splits)
  from 1 2 map_type_octet_stream_iff[of L t] show ?thesis by blast
qed

theorem C5_inode_x_empty_witness:
  "lit ''inode/x-empty'' \<notin> set csv_mimetypes \<and>
   (\<forall>L kind_descr buffer_detection filename.
      lambda_handler_magic L (Inr (lit ''inode/x-empty'')) kind_descr buffer_detection []
          filename =
        Response200 \<lparr>success = False, message = valid_message False,
          mimetype = lit ''inode/x-empty'', body_filename = filename,
          puremagic_details = None\<rparr>)"
  using C5_empty_buffer[OF inode_x_empty(1)] inode_x_empty
  by simp

theorem C5_empty_is_text_plain_counterexample:
  "\<forall>L buffer_type filename.
     response_mimetype (lambda_handler_puremagic L None buffer_type [] filename) =
       Some (lit ''text/plain'') \<and>
     lit ''text/plain'' \<noteq> lit ''application/octet-stream''"
proof -
  have "puremagic_mimetype L None [] = lit ''text/plain''" for L
    by (simp add: puremagic_mimetype_def utf8_decode_Nil)
  moreover have "csv_check_puremagic L [] filename b mt = (b, mt)" for L filename b mt
    by (simp add: csv_check_puremagic_def utf8_decode_Nil content_validation_empty)
  moreover have "lit ''text/plain'' \<noteq> lit ''application/octet-stream''"
    by (simp add: lit_def)
  ultimately show ?thesis
    by (simp add: lambda_handler_puremagic_def response_mimetype_def Let_def)
qed

lemma lower_zip: "py_lower L (lit ''.zip'') = lit ''.zip''"
  by (subst py_lower_ascii) (simp_all add: lit_def ascii_lower_def)

lemma map_type_zip: "map_type L (lit ''.zip'') = lit ''application/octet-stream''"
  unfolding map_type_def lower_zip Let_def by (simp add: lit_def py_startswith_def)

lemma utf8_decode_hi: "utf8_decode ''hi'' = Some (lit ''hi'')"
  by (simp add: utf8_decode_def lit_def)

lemma map_type_no_keyword:
  assumes "\<not> list_ex (\<lambda>keyword. py_in keyword (py_lower L t))
             [lit ''pdf'', lit ''jpeg'', lit ''jpg'', lit ''png'', lit ''text'', lit ''html'',
              lit ''xml'', lit ''json'']"
  shows "map_type L t = lit ''application/octet-stream''"
  using assms by (simp add: map_type_def Let_def)

text \<open>
  C6, as the code has it: the mapper applies the keyword chain to the lower-cased label
  whenever a non-empty label was detected, and then never looks at the bytes: a label that
  holds none of the keywords gives \<^verbatim>\<open>application/octet-stream\<close>. Only when no label was
  detected (\<^verbatim>\<open>None\<close> or the empty string) is the buffer probed: \<^verbatim>\<open>text/plain\<close> when it decodes
  as UTF-8, \<^verbatim>\<open>application/octet-stream\<close> when it does not. The mapper is total: it always
  yields one of eight MIME types.
\<close>

theorem C6_mime_mapper_chain:
  "(\<not> truthy detected_type \<longrightarrow>
      puremagic_mimetype L detected_type file_content =
        (case utf8_decode file_content of
           Some content_str \<Rightarrow> lit ''text/plain''
         | None \<Rightarrow> lit ''application/octet-stream'')) \<and>
   (t \<noteq> [] \<longrightarrow> puremagic_mimetype L (Some t) file_content = map_type L t) \<and>
   (t \<noteq> [] \<and>
    \<not> list_ex (\<lambda>keyword. py_in keyword (py_lower L t))
        [lit ''pdf'', lit ''jpeg'', lit ''jpg'', lit ''png'', lit ''text'', lit ''html'',
         lit ''xml'', lit ''json''] \<longrightarrow>
      puremagic_mimetype L (Some t) file_content = lit ''application/octet-stream'') \<and>
   puremagic_mimetype L detected_type file_content \<in> set mapped_mimetypes"
proof -
  have 1: "\<not> truthy detected_type \<longrightarrow>
      puremagic_mimetype L detected_type file_content =
        (case utf8_decode file_content of
           Some content_str \<Rightarrow> lit ''text/plain''
         | None \<Rightarrow> lit ''application/octet-stream'')"
    by (simp add: truthy_def puremagic_mimetype_def split: option.splits)
  have 2: "t \<noteq> [] \<longrightarrow> puremagic_mimetype L (Some t) file_content = map_type L t"
    by (simp add: puremagic_mimetype_def)
  have 3: "t \<noteq> [] \<and>
    \<not> list_ex (\<lambda>keyword. py_in keyword (py_lower L t))
        [lit ''pdf'', lit ''jpeg'', lit ''jpg'', lit ''png'', lit ''text'', lit ''html'',
         lit ''xml'', lit ''json''] \<longrightarrow>
      puremagic_mimetype L (Some t) file_content = lit ''application/octet-stream''"
    using map_type_no_keyword[of L t] by (simp add: puremagic_mimetype_def)
  from 1 2 3 puremagic_mimetype_range show ?thesis by blast
qed

theorem C6_probe_witness:
  "\<not> truthy None \<and> \<not> truthy (Some []) \<and> lit ''.pdf'' \<noteq> [] \<and>
   (\<forall>L. puremagic_mimetype L None [CHR 0xFF] = lit ''application/octet-stream'' \<and>
        puremagic_mimetype L (Some []) ''a'' = lit ''text/plain'' \<and>
        puremagic_mimetype L (Some (lit ''.pdf'')) ''a'' = map_type L (lit ''.pdf''))"
  using C6_mime_mapper_chain[of None _ "[CHR 0xFF]" "lit ''.pdf''"]
    C6_mime_mapper_chain[of "Some []" _ "''a''" "lit ''.pdf''"]
  by (simp add: truthy_def utf8_decode_FF utf8_decode_a lit_def)

theorem C6_unmatched_label_counterexample:
  "utf8_decode ''hi'' = Some (lit ''hi'') \<and>
   (\<forall>L. puremagic_mimetype L (Some (lit ''.zip'')) ''hi'' = lit ''application/octet-stream'') \<and>
   lit ''application/octet-stream'' \<noteq> lit ''text/plain''"
proof -
  have "lit ''.zip'' \<noteq> []" by (simp add: lit_def)
  then have "puremagic_mimetype L (Some (lit ''.zip'')) ''hi'' = lit ''application/octet-stream''"
    for L by (simp add: puremagic_mimetype_def map_type_zip)
  moreover have "lit ''application/octet-stream'' \<noteq> lit ''text/plain''" by (simp add: lit_def)
  ultimately show ?thesis using utf8_decode_hi by simp
qed

lemma magic_mimetype:
  "response_mimetype
     (lambda_handler_magic L (Inr m) kind_descr buffer_detection file_content filename) =
   Some (if py_startswith m (lit ''text/'')
         then snd (alternative_magic_detection L m buffer_detection) else m)"
  using text_plain_is_text
  by (auto simp: lambda_handler_magic_def response_mimetype_def Let_def split: prod.splits)

lemma puremagic_mimetype_cases:
  "response_mimetype
     (lambda_handler_puremagic L detected_type buffer_type file_content filename) =
       Some (lit ''text/csv'') \<or>
   response_mimetype
     (lambda_handler_puremagic L detected_type buffer_type file_content filename) =
       Some (puremagic_mimetype L detected_type file_content)"
  by (auto simp: lambda_handler_puremagic_def response_mimetype_def Let_def
      csv_check_puremagic_def split: prod.splits option.splits if_splits)

lemma text_csv_not_empty: "lit ''text/csv'' \<noteq> []"
  by (simp add: lit_def)

text \<open>
  C7: the MIME type of the answer is never \<^verbatim>\<open>None\<close> and never empty. In the puremagic variant
  it is \<^verbatim>\<open>text/csv\<close> or one of the eight types of the mapper, among them \<^verbatim>\<open>text/plain\<close> and
  \<^verbatim>\<open>application/octet-stream\<close>. In the libmagic variant it is the MIME type \<open>m\<close> that libmagic
  reported for the file, or \<^verbatim>\<open>text/csv\<close>; it is not empty as long as libmagic's is not.
\<close>

theorem C7_mimetype_never_empty:
  assumes "m \<noteq> []"
  shows "(\<exists>mt. response_mimetype
            (lambda_handler_puremagic L detected_type buffer_type file_content filename) =
              Some mt \<and> mt \<noteq> [] \<and> mt \<in> set (lit ''text/csv'' # mapped_mimetypes)) \<and>
    (\<exists>mt. response_mimetype
            (lambda_handler_magic L (Inr m) kind_descr buffer_detection file_content filename) =
              Some mt \<and> mt \<noteq> [] \<and> (mt = m \<or> mt = lit ''text/csv''))"
proof -
  have r: "puremagic_mimetype L detected_type file_content \<in> set mapped_mimetypes"
    by (rule puremagic_mimetype_range)
  then have e: "puremagic_mimetype L detected_type file_content \<noteq> []"
    by (rule mapped_not_empty)
  have 1: "\<exists>mt. response_mimetype
            (lambda_handler_puremagic L detected_type buffer_type file_content filename) =
              Some mt \<and> mt \<noteq> [] \<and> mt \<in> set (lit ''text/csv'' # mapped_mimetypes)"
    using puremagic_mimetype_cases[of L detected_type buffer_type file_content filename] r e
      text_csv_not_empty by auto
  have 2: "\<exists>mt. response_mimetype
            (lambda_handler_magic L (Inr m) kind_descr buffer_detection file_content filename) =
              Some mt \<and> mt \<noteq> [] \<and> (mt = m \<or> mt = lit ''text/csv'')"
    using alternative_magic_detection_cases[of L m buffer_detection] assms text_csv_not_empty
    by (auto simp: magic_mimetype)
  from 1 2 show ?thesis by simp
qed

theorem C7_png_witness:
  "lit ''image/png'' \<noteq> [] \<and>
   (\<forall>L kind_descr buffer_detection file_content filename.
      response_mimetype
        (lambda_handler_magic L (Inr (lit ''image/png'')) kind_descr buffer_detection
           file_content filename) = Some (lit ''image/png''))"
proof -
  have n: "lit ''image/png'' \<noteq> []" by (simp add: lit_def)
  have t: "\<not> py_startswith (lit ''image/png'') (lit ''text/'')"
    by (simp add: py_startswith_def lit_def)
  show ?thesis using n C7_mimetype_never_empty[OF n] by (simp add: magic_mimetype t)
qed

lemma two_rows_decode: "utf8_decode two_rows = Some (lit two_rows)"
  by (simp add: utf8_decode_def lit_def two_rows_def)

lemma two_rows_lines: "spec_non_empty_lines (lit two_rows) = [lit ''a,b'', lit ''c,d'']"
  by (simp add: spec_non_empty_lines_def py_strip_def py_isspace_def lit_def two_rows_def)

lemma two_rows_structure: "spec_structure (lit two_rows)"
  unfolding spec_structure_def two_rows_lines Let_def by (simp add: lit_def)

lemma two_rows_lower: "py_lower L (lit two_rows) = lit two_rows"
  by (subst py_lower_ascii) (simp_all add: lit_def ascii_lower_def two_rows_def)

lemma x_txt_lower: "py_lower L (lit ''x.txt'') = lit ''x.txt''"
  by (subst py_lower_ascii) (simp_all add: lit_def ascii_lower_def)

lemma two_rows_no_hint: "\<not> spec_hints L (lit two_rows) (lit ''x.txt'')"
  unfolding spec_hints_def two_rows_lower x_txt_lower
  by (simp add: py_endswith_def csv_keywords_def py_startswith_def lit_def two_rows_def)

lemma csv_example_decode: "utf8_decode csv_example = Some (lit csv_example)"
  by (simp add: utf8_decode_def lit_def csv_example_def)

lemma csv_example_lines:
  "spec_non_empty_lines (lit csv_example) =
     [lit ''name,age,city'', lit ''John,30,NYC'', lit ''Jane,25,LA'']"
  by (simp add: spec_non_empty_lines_def py_strip_def py_isspace_def lit_def csv_example_def)

lemma csv_example_structure: "spec_structure (lit csv_example)"
  unfolding spec_structure_def csv_example_lines Let_def by (simp add: lit_def)

lemma data_csv_lower: "py_lower L (lit ''data.csv'') = lit ''data.csv''"
  by (subst py_lower_ascii) (simp_all add: lit_def ascii_lower_def)

lemma data_csv_hint: "spec_hints L (lit csv_example) (lit ''data.csv'')"
  unfolding spec_hints_def data_csv_lower by (simp add: py_endswith_def lit_def)

lemma content_validation_spec:
  assumes "2 \<le> length (spec_non_empty_lines text)"
    and "length (spec_non_empty_lines text) < 2 ^ 48"
  shows "content_validation text hint \<longleftrightarrow> spec_structure text \<and> hint"
proof -
  from assms(1) have ne: "spec_non_empty_lines text \<noteq> []" by auto
  show ?thesis
    unfolding content_validation_iff csv_criteria_met_exact[OF ne assms(2)]
      spec_structure_def Let_def
    using assms(1) by simp
qed

lemma hint_puremagic_spec: "hint_puremagic L filename text = spec_hints L text filename"
  by (simp add: hint_puremagic_def spec_hints_def keyword_hint_def)

lemma hint_magic_spec:
  "hint_magic L filename csv_detected_by_magic text =
     (spec_hints L text filename \<or> csv_detected_by_magic)"
  by (auto simp: hint_magic_def spec_hints_def keyword_hint_def)

lemma csv_check_puremagic_rule:
  assumes "utf8_decode file_content = Some text"
    and "2 \<le> length (spec_non_empty_lines text)"
    and "length (spec_non_empty_lines text) < 2 ^ 48"
  shows "csv_check_puremagic L file_content filename is_csv detected_mimetype =
     (if spec_structure text \<and> spec_hints L text filename
      then (True, lit ''text/csv'') else (is_csv, detected_mimetype))"
  by (simp add: csv_check_puremagic_Some[OF assms(1)] content_validation_spec[OF assms(2,3)]
      hint_puremagic_spec)

lemma csv_check_magic_rule:
  assumes "utf8_decode file_content = Some text"
    and "2 \<le> length (spec_non_empty_lines text)"
    and "length (spec_non_empty_lines text) < 2 ^ 48"
  shows "csv_check_magic L file_content filename csv_detected_by_magic is_csv =
     (spec_structure text \<and> (spec_hints L text filename \<or> csv_detected_by_magic) \<or> is_csv)"
  by (auto simp: csv_check_magic_Some[OF assms(1)] content_validation_spec[OF assms(2,3)]
      hint_magic_spec)

lemma text_plain_not_csv: "lit ''text/plain'' \<notin> set csv_mimetypes"
  by (simp add: csv_mimetypes_def lit_def)

lemma two_rows_count: "2 \<le> length (spec_non_empty_lines (lit two_rows))"
  "length (spec_non_empty_lines (lit two_rows)) < 2 ^ 48"
  by (simp_all add: two_rows_lines)

lemma csv_example_count: "2 \<le> length (spec_non_empty_lines (lit csv_example))"
  "length (spec_non_empty_lines (lit csv_example)) < 2 ^ 48"
  by (simp_all add: csv_example_lines)

text \<open>
  C1, as the code has it. For bytes that decode as UTF-8 to a text with at least two non-empty
  lines (and fewer than \<open>2 ^ 48\<close> of them, where binary64 multiplication agrees with the exact
  ratios), the content check turns a false \<^verbatim>\<open>is_csv\<close> into true exactly when the three
  structural conditions hold together with a hint. In the puremagic variant the hints are the
  two of the specification; in the libmagic variant \<^verbatim>\<open>csv_detected_by_magic\<close> is a third one.
  In the text branch this is the \<^verbatim>\<open>success\<close> of the answer, for the libmagic variant unless
  libmagic already reported a CSV type.
\<close>

theorem C1_csv_rule:
  assumes "utf8_decode file_content = Some text"
    and "2 \<le> length (spec_non_empty_lines text)"
    and "length (spec_non_empty_lines text) < 2 ^ 48"
    and "py_startswith (puremagic_mimetype L detected_type file_content) (lit ''text/'')"
    and "py_startswith m (lit ''text/'')"
    and "m \<notin> set csv_mimetypes"
  shows "fst (csv_check_puremagic L file_content filename False detected_mimetype) =
      (spec_structure text \<and> spec_hints L text filename) \<and>
    csv_check_magic L file_content filename csv_detected_by_magic False =
      (spec_structure text \<and> (spec_hints L text filename \<or> csv_detected_by_magic)) \<and>
    response_success
      (lambda_handler_puremagic L detected_type buffer_type file_content filename) =
      (spec_structure text \<and> spec_hints L text filename) \<and>
    response_success
      (lambda_handler_magic L (Inr m) kind_descr buffer_detection file_content filename) =
      (spec_structure text \<and>
       (spec_hints L text filename \<or> fst (alternative_magic_detection L m buffer_detection)))"
  using assms(4,5,6)
  by (simp add: csv_check_puremagic_rule[OF assms(1,2,3)] csv_check_magic_rule[OF assms(1,2,3)]
      puremagic_success magic_success_text)

theorem C1_three_line_csv_witness:
  "utf8_decode csv_example = Some (lit csv_example) \<and>
   2 \<le> length (spec_non_empty_lines (lit csv_example)) \<and>
   length (spec_non_empty_lines (lit csv_example)) < 2 ^ 48 \<and>
   py_startswith (lit ''text/plain'') (lit ''text/'') \<and>
   lit ''text/plain'' \<notin> set csv_mimetypes \<and>
   (\<forall>L buffer_type kind_descr buffer_detection.
      response_success
        (lambda_handler_puremagic L None buffer_type csv_example (lit ''data.csv'')) \<and>
      response_success
        (lambda_handler_magic L (Inr (lit ''text/plain'')) kind_descr buffer_detection
           csv_example (lit ''data.csv'')))"
proof -
  have p: "puremagic_mimetype L None csv_example = lit ''text/plain''" for L
    by (simp add: puremagic_mimetype_def csv_example_decode)
  have "response_success
        (lambda_handler_puremagic L None buffer_type csv_example (lit ''data.csv'')) \<and>
      response_success
        (lambda_handler_magic L (Inr (lit ''text/plain'')) kind_descr buffer_detection
           csv_example (lit ''data.csv''))" for L buffer_type kind_descr buffer_detection
    using C1_csv_rule[OF csv_example_decode csv_example_count, of L None "lit ''text/plain''"
        "lit ''data.csv''" _ _ buffer_type kind_descr buffer_detection]
    by (simp add: p text_plain_is_text text_plain_not_csv csv_example_structure data_csv_hint)
  then show ?thesis
    using csv_example_decode csv_example_count text_plain_is_text text_plain_not_csv by simp
qed

theorem C1_third_hint_counterexample:
  "utf8_decode two_rows = Some (lit two_rows) \<and>
   2 \<le> length (spec_non_empty_lines (lit two_rows)) \<and>
   (\<forall>L kind_descr.
      response_success
        (lambda_handler_magic L (Inr (lit ''text/plain'')) kind_descr
           (Some (lit ''text/csv'', lit ''CSV text'')) two_rows (lit ''x.txt'')) \<and>
      \<not> (spec_structure (lit two_rows) \<and> spec_hints L (lit two_rows) (lit ''x.txt'')))"
  using two_rows_decode two_rows_count(1)
  by (simp add: magic_success_text text_plain_is_text buffer_reports_csv
      csv_check_magic_rule[OF two_rows_decode two_rows_count] two_rows_structure two_rows_no_hint)

text \<open>
  C2 fails in \<^verbatim>\<open>lambda_function.py\<close>. With libmagic reporting \<^verbatim>\<open>text/plain\<close> for the file and
  for the buffer, the three-line CSV named \<^verbatim>\<open>data.csv\<close> passes the content check, which sets
  \<^verbatim>\<open>is_csv = True\<close> and leaves \<^verbatim>\<open>detected_mimetype\<close> alone: the answer is a success with the
  MIME type \<^verbatim>\<open>text/plain\<close>.
\<close>

theorem C2_libmagic_keeps_text_plain:
  "lambda_handler_magic L (Inr (lit ''text/plain'')) kind_descr
     (Some (lit ''text/plain'', lit ''ASCII text'')) csv_example (lit ''data.csv'') =
   Response200 \<lparr>success = True, message = lit ''File is a valid CSV'',
     mimetype = lit ''text/plain'', body_filename = lit ''data.csv'',
     puremagic_details = None\<rparr>"
proof -
  have c: "csv_check_magic L csv_example (lit ''data.csv'') False False"
    by (simp add: csv_check_magic_rule[OF csv_example_decode csv_example_count]
        csv_example_structure data_csv_hint)
  have v: "valid_message True = lit ''File is a valid CSV''"
    by (simp add: valid_message_def lit_def)
  show ?thesis
    by (simp add: lambda_handler_magic_def Let_def text_plain_is_text text_plain_not_csv
        buffer_reports_text c v)
qed

text \<open>
  The puremagic variant has the override: in the text branch, a content check that succeeds
  answers \<^verbatim>\<open>success = True\<close> with the MIME type \<^verbatim>\<open>text/csv\<close>.
\<close>

lemma puremagic_overrides_mimetype:
  assumes "utf8_decode file_content = Some content_str"
    and "py_startswith (puremagic_mimetype L detected_type file_content) (lit ''text/'')"
    and "content_validation content_str (hint_puremagic L filename content_str)"
  shows "lambda_handler_puremagic L detected_type buffer_type file_content filename =
     Response200 \<lparr>success = True, message = valid_message True, mimetype = lit ''text/csv'',
       body_filename = filename, puremagic_details = Some (detected_type, buffer_type)\<rparr>"
  using assms(2,3)
  by (simp add: lambda_handler_puremagic_def Let_def csv_check_puremagic_Some[OF assms(1)])

lemma puremagic_three_line_csv:
  "lambda_handler_puremagic L None buffer_type csv_example (lit ''data.csv'') =
     Response200 \<lparr>success = True, message = valid_message True, mimetype = lit ''text/csv'',
       body_filename = lit ''data.csv'', puremagic_details = Some (None, buffer_type)\<rparr>"
proof -
  have p: "puremagic_mimetype L None csv_example = lit ''text/plain''"
    by (simp add: puremagic_mimetype_def csv_example_decode)
  have c: "content_validation (lit csv_example)
      (hint_puremagic L (lit ''data.csv'') (lit csv_example))"
    by (simp add: content_validation_spec[OF csv_example_count] csv_example_structure
        hint_puremagic_spec data_csv_hint)
  show ?thesis
    by (rule puremagic_overrides_mimetype[OF csv_example_decode _ c])
       (simp add: p text_plain_is_text)
qed

text \<open>
  C8, as the code has it. In the puremagic variant the buffer detection \<^verbatim>\<open>buffer_type\<close> only
  goes into \<^verbatim>\<open>puremagic_details\<close>; in the libmagic variant the description \<^verbatim>\<open>kind_descr\<close> is
  only printed. Neither changes \<^verbatim>\<open>success\<close> or \<^verbatim>\<open>mimetype\<close>. The secondary buffer detection of
  the libmagic variant is not of that kind: it is covered by the counterexample.
\<close>

theorem C8_diagnostics_do_not_matter:
  "response_success
     (lambda_handler_puremagic L detected_type buffer_type file_content filename) =
   response_success
     (lambda_handler_puremagic L detected_type buffer_type' file_content filename) \<and>
   response_mimetype
     (lambda_handler_puremagic L detected_type buffer_type file_content filename) =
   response_mimetype
     (lambda_handler_puremagic L detected_type buffer_type' file_content filename) \<and>
   lambda_handler_magic L from_file kind_descr buffer_detection file_content filename =
   lambda_handler_magic L from_file kind_descr' buffer_detection file_content filename"
  by (simp add: lambda_handler_puremagic_def lambda_handler_magic_def response_success_def
      response_mimetype_def Let_def split: prod.splits)

theorem C8_buffer_detection_counterexample:
  "\<forall>L kind_descr.
     lambda_handler_magic L (Inr (lit ''text/plain'')) kind_descr
       (Some (lit ''text/csv'', lit ''CSV text'')) two_rows (lit ''x.txt'') =
     Response200 \<lparr>success = True, message = valid_message True, mimetype = lit ''text/csv'',
       body_filename = lit ''x.txt'', puremagic_details = None\<rparr> \<and>
     lambda_handler_magic L (Inr (lit ''text/plain'')) kind_descr
       (Some (lit ''text/plain'', lit ''ASCII text'')) two_rows (lit ''x.txt'') =
     Response200 \<lparr>success = False, message = valid_message False, mimetype = lit ''text/plain'',
       body_filename = lit ''x.txt'', puremagic_details = None\<rparr>"
  by (simp add: lambda_handler_magic_def Let_def text_plain_is_text text_plain_not_csv
      buffer_reports_csv buffer_reports_text
      csv_check_magic_rule[OF two_rows_decode two_rows_count] two_rows_structure two_rows_no_hint)

end
